theory Spec2Isabelle
  imports Complex_Main "HOL-Library.AList" "HOL-Library.Sublist"
begin

section \<open>Used-bike price prediction: the heuristic adjuster and the request handlers\<close>

text \<open>
  A shallow embedding of \<^verbatim>\<open>src/app.py\<close>. In the adjuster Python floats are
  modelled as \<^typ>\<open>real\<close>: the literals \<^verbatim>\<open>1.05\<close>, \<^verbatim>\<open>0.88\<close>, ... are read
  as the decimal fractions they spell and products are exact, so rounding of IEEE doubles
  is outside this development. Python strings are modelled as \<^typ>\<open>string\<close>, a
  character being a code point up to U+00FF; the method \<^verbatim>\<open>str.lower\<close> is modelled
  on ASCII letters and leaves every other character unchanged. A Python dict that is
  built by successive item assignments is an association list in insertion order, and
  \<^verbatim>\<open>d[k] = v\<close> is \<^const>\<open>AList.update\<close>: the value of an existing key is replaced
  in place, a new key is appended at the end.

  The handlers are functions of the module state and of the request: the method and the
  form fields for the page, the parsed JSON body for the JSON endpoint (a body that is
  not JSON never reaches the handler's own code). A Python exception is a value of a sum
  type, \<open>Inl\<close> the exception. What the built-in \<^verbatim>\<open>int\<close> and \<^verbatim>\<open>float\<close> make
  of a text, and of an integer too large for a double to hold exactly, is decided by the
  Python runtime and not by this program: the handlers take it as a parameter, and their
  properties are proved for every runtime.
\<close>

subsection \<open>Strings\<close>

definition lower_char :: "char \<Rightarrow> char" where
  "lower_char c =
     (case map_of (zip ''ABCDEFGHIJKLMNOPQRSTUVWXYZ'' ''abcdefghijklmnopqrstuvwxyz'') c of
        Some d \<Rightarrow> d
      | None \<Rightarrow> c)"

definition lower :: "string \<Rightarrow> string" where
  "lower s = map lower_char s"

text \<open>Python's \<^verbatim>\<open>key in text\<close> on two strings: \<^verbatim>\<open>key\<close> occurs in
  \<^verbatim>\<open>text\<close> as a contiguous run of characters.\<close>

fun str_in :: "string \<Rightarrow> string \<Rightarrow> bool" where
  "str_in key [] = (key = [])"
| "str_in key (c # cs) = (prefix key (c # cs) \<or> str_in key cs)"

subsection \<open>The heuristic adjuster\<close>

type_synonym breakdown = "(string \<times> real) list"

definition owner_map :: "(string \<times> real) list" where
  "owner_map =
     [(''1st owner'', 1.05),
      (''2nd owner'', 0.98),
      (''3rd owner'', 0.94),
      (''4th owner'', 0.90)]"

definition seller_map :: "(string \<times> real) list" where
  "seller_map =
     [(''individual'', 1.00),
      (''dealer'', 1.03),
      (''trustmark dealer'', 1.05)]"

definition model_map :: "(string \<times> real) list" where
  "model_map =
     [(''royal'', 1.15),
      (''honda'', 1.06),
      (''yamaha'', 1.05),
      (''bajaj'', 1.00),
      (''hero'', 1.00),
      (''suzuki'', 1.04)]"

text \<open>\<^verbatim>\<open>d.get(key, default)\<close>.\<close>

definition dict_get :: "(string \<times> real) list \<Rightarrow> string \<Rightarrow> real \<Rightarrow> real" where
  "dict_get d key dflt = (case map_of d key of Some v \<Rightarrow> v | None \<Rightarrow> dflt)"

text \<open>Each block of the function body takes the pair of the running \<^verbatim>\<open>multiplier\<close>
  and the \<^verbatim>\<open>breakdown\<close> dict and returns the updated pair.\<close>

fun owner_step :: "string option \<Rightarrow> real \<times> breakdown \<Rightarrow> real \<times> breakdown" where
  "owner_step owner (multiplier, breakdown) =
     (case owner of
        None \<Rightarrow> (multiplier, breakdown)
      | Some s \<Rightarrow>
          if s = [] then (multiplier, breakdown)
          else
            let owner_key = lower s;
                mult = dict_get owner_map owner_key 1.0
            in (multiplier * mult, AList.update ''owner_multiplier'' mult breakdown))"

fun seller_step :: "string option \<Rightarrow> real \<times> breakdown \<Rightarrow> real \<times> breakdown" where
  "seller_step seller_type (multiplier, breakdown) =
     (case seller_type of
        None \<Rightarrow> (multiplier, breakdown)
      | Some s \<Rightarrow>
          if s = [] then (multiplier, breakdown)
          else
            let seller_key = lower s;
                mult = dict_get seller_map seller_key 1.0
            in (multiplier * mult, AList.update ''seller_multiplier'' mult breakdown))"

fun km_step :: "real option \<Rightarrow> real \<times> breakdown \<Rightarrow> real \<times> breakdown" where
  "km_step km_driven (multiplier, breakdown) =
     (case km_driven of
        None \<Rightarrow> (multiplier, breakdown)
      | Some km \<Rightarrow>
          let mult = (if km > 50000 then 0.88
                      else if km > 30000 then 0.95
                      else if km < 15000 then 1.03
                      else 1.0)
          in (multiplier * mult, AList.update ''km_multiplier'' mult breakdown))"

text \<open>The \<^verbatim>\<open>for key, val in model_map.items()\<close> loop with its \<^verbatim>\<open>break\<close>: the
  entries are visited in the order in which the dict literal lists them; the result is
  the value of the first key found in \<^verbatim>\<open>lowered\<close>, or \<open>None\<close> when the loop
  ends with \<^verbatim>\<open>found\<close> still false.\<close>

fun model_loop :: "(string \<times> real) list \<Rightarrow> string \<Rightarrow> real option" where
  "model_loop [] lowered = None"
| "model_loop ((key, val) # rest) lowered =
     (if str_in key lowered then Some val else model_loop rest lowered)"

fun model_step :: "string option \<Rightarrow> real \<times> breakdown \<Rightarrow> real \<times> breakdown" where
  "model_step model_name (multiplier, breakdown) =
     (case model_name of
        None \<Rightarrow> (multiplier, breakdown)
      | Some s \<Rightarrow>
          if s = [] then (multiplier, breakdown)
          else
            let lowered = lower s in
            (case model_loop model_map lowered of
               Some val \<Rightarrow> (multiplier * val, AList.update ''model_multiplier'' val breakdown)
             | None \<Rightarrow> (multiplier, AList.update ''model_multiplier'' 1.0 breakdown)))"

definition apply_heuristics ::
  "real \<Rightarrow> string option \<Rightarrow> string option \<Rightarrow> string option \<Rightarrow> real option \<Rightarrow> bool
     \<Rightarrow> real \<times> breakdown" where
  "apply_heuristics base_pred owner seller_type model_name km_driven apply_adjustments =
     (let breakdown = [(''base'', base_pred)] in
      if \<not> apply_adjustments then (base_pred, breakdown)
      else
        case model_step model_name
               (km_step km_driven
                 (seller_step seller_type
                   (owner_step owner (1.0, breakdown)))) of
          (multiplier, breakdown) \<Rightarrow>
            let adjusted = base_pred * multiplier
            in (adjusted,
                AList.update ''total_multiplier'' multiplier
                  (AList.update ''adjusted'' adjusted breakdown)))"

subsection \<open>What each block of the adjuster contributes\<close>

text \<open>
  Notions used to state what the four blocks do one at a time: the factor a block records
  (\<open>None\<close> when the block is skipped), the number it multiplies into the running
  multiplier, and the write to the breakdown.
\<close>

fun mult_of :: "real option \<Rightarrow> real" where
  "mult_of None = 1"
| "mult_of (Some v) = v"

fun record_factor :: "string \<Rightarrow> real option \<Rightarrow> breakdown \<Rightarrow> breakdown" where
  "record_factor k None bd = bd"
| "record_factor k (Some v) bd = AList.update k v bd"

definition text_factor :: "(string \<Rightarrow> real) \<Rightarrow> string option \<Rightarrow> real option" where
  "text_factor f t =
     (case t of None \<Rightarrow> None | Some s \<Rightarrow> if s = [] then None else Some (f (lower s)))"

definition owner_factor :: "string option \<Rightarrow> real option" where
  "owner_factor = text_factor (\<lambda>k. dict_get owner_map k 1)"

definition seller_factor :: "string option \<Rightarrow> real option" where
  "seller_factor = text_factor (\<lambda>k. dict_get seller_map k 1)"

definition km_factor :: "real option \<Rightarrow> real option" where
  "km_factor km_driven =
     map_option (\<lambda>km. if km > 50000 then 0.88
                      else if km > 30000 then 0.95
                      else if km < 15000 then 1.03
                      else 1.0) km_driven"

definition model_factor :: "string option \<Rightarrow> real option" where
  "model_factor =
     text_factor (\<lambda>k. case model_loop model_map k of Some v \<Rightarrow> v | None \<Rightarrow> 1)"

definition total_factor ::
  "string option \<Rightarrow> string option \<Rightarrow> string option \<Rightarrow> real option \<Rightarrow> real" where
  "total_factor owner seller_type model_name km_driven =
     mult_of (owner_factor owner) * mult_of (seller_factor seller_type)
       * mult_of (km_factor km_driven) * mult_of (model_factor model_name)"

subsection \<open>Python values, exceptions and conversions\<close>

text \<open>
  A float as the handlers meet it: a finite number, an infinity, or not-a-number (the
  JSON parser yields the last three for \<^verbatim>\<open>Infinity\<close>, \<^verbatim>\<open>-Infinity\<close>,
  \<^verbatim>\<open>NaN\<close> and for numerals beyond the range of a double). A finite float is taken
  as the number it denotes; the two zeros are not told apart.
\<close>

datatype float_value = Finite real | PosInf | NegInf | NaN

text \<open>\<^verbatim>\<open>x < c\<close> and \<^verbatim>\<open>x <= c\<close> for a float \<^verbatim>\<open>x\<close> and a finite constant
  \<^verbatim>\<open>c\<close>: every comparison with not-a-number is false.\<close>

fun float_lt :: "float_value \<Rightarrow> real \<Rightarrow> bool" where
  "float_lt (Finite r) c = (r < c)"
| "float_lt NegInf c = True"
| "float_lt PosInf c = False"
| "float_lt NaN c = False"

fun float_le :: "float_value \<Rightarrow> real \<Rightarrow> bool" where
  "float_le (Finite r) c = (r \<le> c)"
| "float_le NegInf c = True"
| "float_le PosInf c = False"
| "float_le NaN c = False"

text \<open>
  The values a parsed JSON body or a form field can hold. A dict is the list of its
  items; a parsed JSON object has no repeated key.
\<close>

datatype py_value =
    PNone
  | PBool bool
  | PInt int
  | PFloat float_value
  | PStr string
  | PList "py_value list"
  | PDict "(string \<times> py_value) list"

text \<open>
  The exceptions the handlers can meet. \<open>ValueError\<close> carries its message;
  \<open>InvalidLiteral\<close> is the \<^verbatim>\<open>ValueError\<close> of \<^verbatim>\<open>int\<close> and
  \<^verbatim>\<open>float\<close> on a text that is not a number, with that text;
  \<open>AttributeError\<close> carries the attribute that was looked up on an object without
  it; \<open>PredictError\<close> is whatever the model's \<^verbatim>\<open>predict\<close> raises, with its
  message.
\<close>

datatype py_exception =
    ValueError string
  | InvalidLiteral string
  | TypeError
  | OverflowError
  | AttributeError string
  | KeyError string
  | PredictError string

text \<open>An error text of a response: a string the handler wrote, or \<^verbatim>\<open>str(e)\<close>
  of a caught exception.\<close>

datatype message = Text string | StrOf py_exception

fun and_then :: "py_exception + 'a \<Rightarrow> ('a \<Rightarrow> py_exception + 'b) \<Rightarrow> py_exception + 'b" where
  "and_then (Inl e) f = Inl e"
| "and_then (Inr x) f = f x"

text \<open>Truthiness: of the floats only zero is false.\<close>

fun truthy :: "py_value \<Rightarrow> bool" where
  "truthy PNone = False"
| "truthy (PBool b) = b"
| "truthy (PInt n) = (n \<noteq> 0)"
| "truthy (PFloat x) = (x \<noteq> Finite 0)"
| "truthy (PStr s) = (s \<noteq> [])"
| "truthy (PList xs) = (xs \<noteq> [])"
| "truthy (PDict kvs) = (kvs \<noteq> [])"

text \<open>\<^verbatim>\<open>k in data\<close> for a string \<^verbatim>\<open>k\<close>: key membership in a dict, element
  membership in a list, substring test in a string, \<^verbatim>\<open>TypeError\<close> otherwise.\<close>

fun py_in :: "string \<Rightarrow> py_value \<Rightarrow> py_exception + bool" where
  "py_in k (PDict kvs) = Inr (map_of kvs k \<noteq> None)"
| "py_in k (PList xs) = Inr (List.member xs (PStr k))"
| "py_in k (PStr s) = Inr (str_in k s)"
| "py_in k v = Inl TypeError"

text \<open>\<^verbatim>\<open>data[k]\<close> and \<^verbatim>\<open>data.get(k, default)\<close> for a string \<^verbatim>\<open>k\<close>.\<close>

fun py_getitem :: "py_value \<Rightarrow> string \<Rightarrow> py_exception + py_value" where
  "py_getitem (PDict kvs) k = (case map_of kvs k of Some v \<Rightarrow> Inr v | None \<Rightarrow> Inl (KeyError k))"
| "py_getitem v k = Inl TypeError"

fun py_get :: "py_value \<Rightarrow> string \<Rightarrow> py_value \<Rightarrow> py_exception + py_value" where
  "py_get (PDict kvs) k dflt = (case map_of kvs k of Some v \<Rightarrow> Inr v | None \<Rightarrow> Inr dflt)"
| "py_get v k dflt = Inl (AttributeError ''get'')"

text \<open>
  The part of the built-in conversions that the Python runtime decides: \<^verbatim>\<open>int(s)\<close>
  and \<^verbatim>\<open>float(s)\<close> for a text \<^verbatim>\<open>s\<close> (\<open>None\<close> when they raise
  \<^verbatim>\<open>ValueError\<close>), and \<^verbatim>\<open>float(n)\<close> for an integer \<^verbatim>\<open>n\<close> beyond
  \<open>2\<^sup>5\<^sup>3\<close> in absolute value, which is rounded (\<open>None\<close> when it raises
  \<^verbatim>\<open>OverflowError\<close>).
\<close>

record runtime =
  int_of_text :: "string \<Rightarrow> int option"
  float_of_text :: "string \<Rightarrow> float_value option"
  float_of_big_int :: "int \<Rightarrow> float_value option"

text \<open>\<^verbatim>\<open>int(v)\<close>: a finite float is truncated towards zero.\<close>

fun py_int :: "runtime \<Rightarrow> py_value \<Rightarrow> py_exception + int" where
  "py_int rt (PInt n) = Inr n"
| "py_int rt (PBool b) = Inr (if b then 1 else 0)"
| "py_int rt (PFloat (Finite r)) = Inr (if 0 \<le> r then \<lfloor>r\<rfloor> else \<lceil>r\<rceil>)"
| "py_int rt (PFloat PosInf) = Inl OverflowError"
| "py_int rt (PFloat NegInf) = Inl OverflowError"
| "py_int rt (PFloat NaN) = Inl (ValueError ''cannot convert float NaN to integer'')"
| "py_int rt (PStr s) =
     (case int_of_text rt s of Some n \<Rightarrow> Inr n | None \<Rightarrow> Inl (InvalidLiteral s))"
| "py_int rt v = Inl TypeError"

text \<open>\<^verbatim>\<open>float(v)\<close>: an integer up to \<open>2\<^sup>5\<^sup>3\<close> in absolute value is a float.\<close>

fun py_float :: "runtime \<Rightarrow> py_value \<Rightarrow> py_exception + float_value" where
  "py_float rt (PFloat x) = Inr x"
| "py_float rt (PInt n) =
     (if \<bar>n\<bar> \<le> 2 ^ 53 then Inr (Finite (real_of_int n))
      else case float_of_big_int rt n of Some x \<Rightarrow> Inr x | None \<Rightarrow> Inl OverflowError)"
| "py_float rt (PBool b) = Inr (Finite (if b then 1 else 0))"
| "py_float rt (PStr s) =
     (case float_of_text rt s of Some x \<Rightarrow> Inr x | None \<Rightarrow> Inl (InvalidLiteral s))"
| "py_float rt v = Inl TypeError"






subsection \<open>The model and the state set up when the module is loaded\<close>

text \<open>
  The regression model is opaque: given the feature row \<^verbatim>\<open>[year, km_driven,
  ex_showroom_price, age]\<close> its \<^verbatim>\<open>predict\<close> returns a number, taken to be finite,
  or raises.
\<close>

type_synonym features = "int \<times> float_value \<times> float_value \<times> int"

datatype feature_names = NameList "string list" | NameText string

record model_obj =
  predict :: "features \<Rightarrow> py_exception + real"
  feature_names_in :: "feature_names option"

text \<open>What is found at \<^verbatim>\<open>MODEL_PATH\<close> when the module is loaded: no file, a file
  on which \<^verbatim>\<open>joblib.load\<close> raises (with the exception's text), or a model.\<close>

datatype artifact = NoFile | LoadFails string | Loads model_obj

definition MODEL_PATH :: string where
  "MODEL_PATH = ''best_bike_price_model.pkl''"

record app_state =
  model :: "model_obj option"
  model_loaded :: bool
  load_error :: "string option"
  CURRENT_YEAR :: int
  CORS_AVAILABLE :: bool

definition load_model :: "artifact \<Rightarrow> int \<Rightarrow> bool \<Rightarrow> app_state" where
  "load_model found year cors =
     (case found of
        Loads m \<Rightarrow>
          \<lparr>model = Some m, model_loaded = True, load_error = None,
           CURRENT_YEAR = year, CORS_AVAILABLE = cors\<rparr>
      | LoadFails e \<Rightarrow>
          \<lparr>model = None, model_loaded = False, load_error = Some e,
           CURRENT_YEAR = year, CORS_AVAILABLE = cors\<rparr>
      | NoFile \<Rightarrow>
          \<lparr>model = None, model_loaded = False,
           load_error = Some (''Model file not found at '' @ MODEL_PATH
                                @ ''. Run the training notebook to create it.''),
           CURRENT_YEAR = year, CORS_AVAILABLE = cors\<rparr>)"

text \<open>\<^verbatim>\<open>model.predict(X)[0]\<close> on the global \<^verbatim>\<open>model\<close>, which is
  \<^verbatim>\<open>None\<close> when nothing was loaded.\<close>

definition model_predict :: "app_state \<Rightarrow> features \<Rightarrow> py_exception + real" where
  "model_predict g X =
     (case model g of None \<Rightarrow> Inl (AttributeError ''predict'') | Some m \<Rightarrow> predict m X)"


text \<open>
  The adjuster is stated above for a finite \<^verbatim>\<open>km_driven\<close>. It uses the value only in
  the comparisons \<^verbatim>\<open>> 50000\<close>, \<^verbatim>\<open>> 30000\<close> and \<^verbatim>\<open>< 15000\<close>, and never
  records it. For positive infinity the first comparison is true, for negative infinity
  only the last, and for not-a-number all three are false, so the call with such a float
  does what the call with the finite number below does.
\<close>

fun km_for_adjuster :: "float_value \<Rightarrow> real" where
  "km_for_adjuster (Finite r) = r"
| "km_for_adjuster PosInf = 50001"
| "km_for_adjuster NegInf = - 1"
| "km_for_adjuster NaN = 15000"

subsection \<open>The form page\<close>

datatype http_method = GET | POST

text \<open>The four values handed to the page template; the status is always 200.\<close>

record page =
  page_prediction :: "real option"
  page_adjusted_prediction :: "real option"
  page_breakdown :: "breakdown option"
  page_error :: "message option"

text \<open>\<^verbatim>\<open>request.form.get(k)\<close> as a Python value, and \<^verbatim>\<open>request.form.get(k) or None\<close>.\<close>

definition form_get :: "(string \<rightharpoonup> string) \<Rightarrow> string \<Rightarrow> py_value" where
  "form_get form k = (case form k of None \<Rightarrow> PNone | Some s \<Rightarrow> PStr s)"

definition form_get_or_none :: "(string \<rightharpoonup> string) \<Rightarrow> string \<Rightarrow> string option" where
  "form_get_or_none form k =
     (case form k of None \<Rightarrow> None | Some s \<Rightarrow> if s = [] then None else Some s)"

text \<open>How an optional value is spliced into an f-string.\<close>

fun str_opt :: "string option \<Rightarrow> string" where
  "str_opt None = ''None''"
| "str_opt (Some s) = s"

text \<open>The \<^verbatim>\<open>try\<close> block of \<^verbatim>\<open>index\<close>: an exception, or the prediction, the
  adjusted prediction and the breakdown.\<close>

definition index_try ::
  "runtime \<Rightarrow> app_state \<Rightarrow> (string \<rightharpoonup> string)
     \<Rightarrow> py_exception + (real \<times> real \<times> breakdown)" where
  "index_try rt g form =
     and_then (py_int rt (form_get form ''year'')) (\<lambda>year.
     and_then (py_float rt (form_get form ''km_driven'')) (\<lambda>km_driven.
     and_then (py_float rt (form_get form ''ex_showroom_price'')) (\<lambda>ex_showroom_price.
       let owner = form_get_or_none form ''owner'';
           seller_type = form_get_or_none form ''seller_type'';
           model_name = form_get_or_none form ''model_name'';
           apply_adjustments = (form ''apply_adjustments'' = Some ''on'')
       in
         if year < 1900 \<or> year > CURRENT_YEAR g
           then Inl (ValueError ''Please enter a valid manufacturing year.'')
         else if float_lt km_driven 0
           then Inl (ValueError ''Kilometers driven cannot be negative.'')
         else if float_le ex_showroom_price 0
           then Inl (ValueError ''Ex-showroom price must be positive.'')
         else
           let age = CURRENT_YEAR g - year in
           and_then (model_predict g (year, km_driven, ex_showroom_price, age)) (\<lambda>prediction.
             case apply_heuristics prediction owner seller_type model_name
                    (Some (km_for_adjuster km_driven)) apply_adjustments of
               (adjusted_prediction, breakdown) \<Rightarrow>
                 Inr (prediction, adjusted_prediction, breakdown)))))"

definition index ::
  "runtime \<Rightarrow> app_state \<Rightarrow> http_method \<Rightarrow> (string \<rightharpoonup> string) \<Rightarrow> page" where
  "index rt g method form =
     (if \<not> model_loaded g then
        \<lparr>page_prediction = None, page_adjusted_prediction = None, page_breakdown = None,
         page_error = (if method = POST
                       then Some (Text (''Model not loaded: '' @ str_opt (load_error g)))
                       else None)\<rparr>
      else if method = POST then
        (case index_try rt g form of
           Inl e \<Rightarrow>
             \<lparr>page_prediction = None, page_adjusted_prediction = None, page_breakdown = None,
              page_error = Some (StrOf e)\<rparr>
         | Inr (prediction, adjusted_prediction, breakdown) \<Rightarrow>
             \<lparr>page_prediction = Some prediction,
              page_adjusted_prediction = Some adjusted_prediction,
              page_breakdown = Some breakdown, page_error = None\<rparr>)
      else
        \<lparr>page_prediction = None, page_adjusted_prediction = None, page_breakdown = None,
         page_error = None\<rparr>)"

subsection \<open>The health endpoint\<close>

record health_report =
  health_model_loaded :: bool
  health_model_path :: string
  health_load_error :: "string option"
  health_feature_names :: "feature_names option"
  health_cors_available :: bool

definition health :: "app_state \<Rightarrow> health_report" where
  "health g =
     \<lparr>health_model_loaded = model_loaded g,
      health_model_path = MODEL_PATH,
      health_load_error = (if \<not> model_loaded g then load_error g else None),
      health_feature_names = (case model g of None \<Rightarrow> None | Some m \<Rightarrow> feature_names_in m),
      health_cors_available = CORS_AVAILABLE g\<rparr>"

subsection \<open>The JSON endpoint\<close>

text \<open>A response: the status and the JSON body, an \<^verbatim>\<open>error\<close> object or the result.\<close>

datatype api_body = ErrorBody message | ResultBody real real breakdown

definition required :: "string list" where
  "required = [''year'', ''km_driven'', ''ex_showroom_price'']"

text \<open>\<^verbatim>\<open>[k for k in required if k not in data]\<close>.\<close>

fun missing_of :: "py_value \<Rightarrow> string list \<Rightarrow> py_exception + string list" where
  "missing_of data [] = Inr []"
| "missing_of data (k # ks) =
     and_then (py_in k data) (\<lambda>present.
     and_then (missing_of data ks) (\<lambda>rest.
       Inr (if present then rest else k # rest)))"

text \<open>How a list of strings is spliced into an f-string, for strings with no quote,
  backslash or control character (the required keys are such): each between single
  quotes, separated by a comma and a space, in square brackets.\<close>

fun join_keys :: "string list \<Rightarrow> string" where
  "join_keys [] = []"
| "join_keys [k] = [CHR 0x27] @ k @ [CHR 0x27]"
| "join_keys (k # ks) = [CHR 0x27] @ k @ [CHR 0x27] @ '', '' @ join_keys ks"

definition str_keys :: "string list \<Rightarrow> string" where
  "str_keys ks = ''['' @ join_keys ks @ '']''"

text \<open>
  The handler passes the JSON values of \<^verbatim>\<open>owner\<close>, \<^verbatim>\<open>seller_type\<close> and
  \<^verbatim>\<open>model_name\<close> to the adjuster as they are. With adjustments on, the adjuster
  skips a falsy value and calls \<^verbatim>\<open>.lower()\<close> on a truthy one, which only a string
  has; with adjustments off it does not look at them.
\<close>

fun text_arg :: "py_value \<Rightarrow> py_exception + string option" where
  "text_arg (PStr s) = Inr (Some s)"
| "text_arg v = (if truthy v then Inl (AttributeError ''lower'') else Inr None)"

definition apply_heuristics_on_values ::
  "real \<Rightarrow> py_value \<Rightarrow> py_value \<Rightarrow> py_value \<Rightarrow> real option \<Rightarrow> bool
     \<Rightarrow> py_exception + (real \<times> breakdown)" where
  "apply_heuristics_on_values base_pred owner seller_type model_name km_driven apply_adjustments =
     (if \<not> apply_adjustments
      then Inr (apply_heuristics base_pred None None None km_driven False)
      else
        and_then (text_arg owner) (\<lambda>owner.
        and_then (text_arg seller_type) (\<lambda>seller_type.
        and_then (text_arg model_name) (\<lambda>model_name.
          Inr (apply_heuristics base_pred owner seller_type model_name km_driven True)))))"

text \<open>The \<^verbatim>\<open>try\<close> block of \<^verbatim>\<open>predict_api\<close>: an exception for the
  \<^verbatim>\<open>except\<close> clause, or the response it returns.\<close>

definition predict_api_try ::
  "runtime \<Rightarrow> app_state \<Rightarrow> py_value \<Rightarrow> py_exception + (nat \<times> api_body)" where
  "predict_api_try rt g data =
     and_then (py_getitem data ''year'') (\<lambda>v.
     and_then (py_int rt v) (\<lambda>year.
     and_then (py_getitem data ''km_driven'') (\<lambda>v.
     and_then (py_float rt v) (\<lambda>km_driven.
     and_then (py_getitem data ''ex_showroom_price'') (\<lambda>v.
     and_then (py_float rt v) (\<lambda>ex_showroom_price.
       if year < 1900 \<or> year > CURRENT_YEAR g
         then Inr (400, ErrorBody (Text ''Invalid year''))
       else if float_lt km_driven 0
         then Inr (400, ErrorBody (Text ''Invalid km_driven''))
       else if float_le ex_showroom_price 0
         then Inr (400, ErrorBody (Text ''Invalid ex_showroom_price''))
       else
         let age = CURRENT_YEAR g - year in
         and_then (model_predict g (year, km_driven, ex_showroom_price, age)) (\<lambda>pred.
         and_then (py_get data ''owner'' PNone) (\<lambda>owner.
         and_then (py_get data ''seller_type'' PNone) (\<lambda>seller_type.
         and_then (py_get data ''model_name'' PNone) (\<lambda>model_name.
         and_then (py_get data ''apply_adjustments'' (PBool False)) (\<lambda>flag.
           let apply_adjustments = truthy flag in
           and_then (apply_heuristics_on_values pred owner seller_type model_name
                       (Some (km_for_adjuster km_driven)) apply_adjustments)
             (\<lambda>(adjusted, breakdown).
               Inr (200, ResultBody pred adjusted breakdown)))))))))))))"

text \<open>
  The handler, given the parsed body. \<open>Inl\<close> is an exception that leaves the handler
  (the membership test stands outside the \<^verbatim>\<open>try\<close> block); \<open>Inr\<close> is the
  response it returns.
\<close>

definition predict_api ::
  "runtime \<Rightarrow> app_state \<Rightarrow> py_value \<Rightarrow> py_exception + (nat \<times> api_body)" where
  "predict_api rt g data =
     (if \<not> truthy data
        then Inr (400, ErrorBody (Text ''No JSON payload provided''))
      else
        and_then (missing_of data required) (\<lambda>missing.
          if missing \<noteq> []
            then Inr (400, ErrorBody (Text (''Missing fields: '' @ str_keys missing)))
          else
            (case predict_api_try rt g data of
               Inl e \<Rightarrow> Inr (500, ErrorBody (StrOf e))
             | Inr response \<Rightarrow> Inr response)))"

text \<open>The values that have no members: on them the membership test raises.\<close>

fun is_number :: "py_value \<Rightarrow> bool" where
  "is_number (PBool b) = True"
| "is_number (PInt n) = True"
| "is_number (PFloat x) = True"
| "is_number v = False"


section \<open>Properties of the heuristic adjuster\<close>

subsection \<open>The blocks one at a time\<close>



lemma lower_Nil_iff: "lower s = [] \<longleftrightarrow> s = []"
  by (simp add: lower_def)

lemma text_factor_lower_cong:
  "lower s1 = lower s2 \<Longrightarrow> text_factor f (Some s1) = text_factor f (Some s2)"
  using lower_Nil_iff [of s1] lower_Nil_iff [of s2] by (simp add: text_factor_def)

lemma owner_step_eq:
  "owner_step owner (m, bd) =
     (m * mult_of (owner_factor owner), record_factor ''owner_multiplier'' (owner_factor owner) bd)"
  by (simp add: owner_factor_def text_factor_def Let_def split: option.splits)

lemma seller_step_eq:
  "seller_step seller_type (m, bd) =
     (m * mult_of (seller_factor seller_type),
      record_factor ''seller_multiplier'' (seller_factor seller_type) bd)"
  by (simp add: seller_factor_def text_factor_def Let_def split: option.splits)

lemma km_step_eq:
  "km_step km_driven (m, bd) =
     (m * mult_of (km_factor km_driven), record_factor ''km_multiplier'' (km_factor km_driven) bd)"
  by (cases km_driven) (simp_all add: km_factor_def Let_def)

lemma model_step_eq:
  "model_step model_name (m, bd) =
     (m * mult_of (model_factor model_name),
      record_factor ''model_multiplier'' (model_factor model_name) bd)"
  by (simp add: model_factor_def text_factor_def Let_def split: option.splits)

lemma map_of_record_factor:
  "map_of (record_factor k r bd) k' = (if k' = k \<and> r \<noteq> None then r else map_of bd k')"
  by (cases r) (simp_all add: update_conv')

lemma dict_get_mult_of: "dict_get bd k 1 = mult_of (map_of bd k)"
  by (cases "map_of bd k") (simp_all add: dict_get_def)

subsection \<open>The result with adjustments on\<close>

lemma apply_heuristics_on:
  "apply_heuristics b owner seller_type model_name km_driven True =
     (b * total_factor owner seller_type model_name km_driven,
      AList.update ''total_multiplier'' (total_factor owner seller_type model_name km_driven)
        (AList.update ''adjusted'' (b * total_factor owner seller_type model_name km_driven)
          (record_factor ''model_multiplier'' (model_factor model_name)
            (record_factor ''km_multiplier'' (km_factor km_driven)
              (record_factor ''seller_multiplier'' (seller_factor seller_type)
                (record_factor ''owner_multiplier'' (owner_factor owner) [(''base'', b)]))))))"
  unfolding apply_heuristics_def Let_def owner_step_eq seller_step_eq km_step_eq model_step_eq
  by (simp add: total_factor_def)

lemma apply_heuristics_fst:
  "fst (apply_heuristics b owner seller_type model_name km_driven True)
     = b * total_factor owner seller_type model_name km_driven"
  by (simp add: apply_heuristics_on)

lemma lookup_total:
  "map_of (snd (apply_heuristics b owner seller_type model_name km_driven True)) ''total_multiplier''
     = Some (total_factor owner seller_type model_name km_driven)"
  by (simp add: apply_heuristics_on update_conv')

lemma lookup_adjusted:
  "map_of (snd (apply_heuristics b owner seller_type model_name km_driven True)) ''adjusted''
     = Some (b * total_factor owner seller_type model_name km_driven)"
  by (simp add: apply_heuristics_on update_conv')

lemma lookup_model:
  "map_of (snd (apply_heuristics b owner seller_type model_name km_driven True)) ''model_multiplier''
     = model_factor model_name"
  by (simp add: apply_heuristics_on update_conv' map_of_record_factor)

lemma lookup_km:
  "map_of (snd (apply_heuristics b owner seller_type model_name km_driven True)) ''km_multiplier''
     = km_factor km_driven"
  by (simp add: apply_heuristics_on update_conv' map_of_record_factor)

lemma lookup_seller:
  "map_of (snd (apply_heuristics b owner seller_type model_name km_driven True)) ''seller_multiplier''
     = seller_factor seller_type"
  by (simp add: apply_heuristics_on update_conv' map_of_record_factor)

lemma lookup_owner:
  "map_of (snd (apply_heuristics b owner seller_type model_name km_driven True)) ''owner_multiplier''
     = owner_factor owner"
  by (simp add: apply_heuristics_on update_conv' map_of_record_factor)

lemma apply_heuristics_owner_cong:
  assumes "owner_factor o1 = owner_factor o2"
  shows "apply_heuristics b o1 s m k a = apply_heuristics b o2 s m k a"
proof (cases a)
  case True
  then show ?thesis by (simp add: apply_heuristics_on total_factor_def assms)
next
  case False
  then show ?thesis by (simp add: apply_heuristics_def)
qed

lemma owner_factor_absent: "owner_factor None = None" "owner_factor (Some []) = None"
  by (simp_all add: owner_factor_def text_factor_def)

lemma lookup_owner_absent:
  assumes "owner_factor owner = None"
  shows "map_of (snd (apply_heuristics b owner s m k a)) ''owner_multiplier'' = None"
proof (cases a)
  case True
  then show ?thesis by (simp add: lookup_owner assms)
next
  case False
  then show ?thesis by (simp add: apply_heuristics_def)
qed


subsection \<open>The claims about the adjuster\<close>

text \<open>
  Claim C4. With \<^verbatim>\<open>apply_adjustments\<close> false the adjuster returns the base
  prediction itself, and the breakdown is the dict with the single key \<^verbatim>\<open>base\<close>
  mapped to the base prediction, whatever the optional arguments are.
\<close>

theorem apply_heuristics_off:
  "apply_heuristics base_pred owner seller_type model_name km_driven False
     = (base_pred, [(''base'', base_pred)])"
  by (simp add: apply_heuristics_def)

text \<open>
  Claim C2. With adjustments on and \<^verbatim>\<open>km_driven\<close> given (zero included), the
  breakdown records under \<^verbatim>\<open>km_multiplier\<close> the value of the ordered step function:
  0.88 above 50000, else 0.95 above 30000, else 1.03 below 15000, else 1.00. At the
  boundaries: 50001 gives 0.88, 50000 and 30001 give 0.95, 30000 and 15000 give 1.00,
  14999 gives 1.03, and 0 gives 1.03.
\<close>

theorem km_band_factor:
  "map_of (snd (apply_heuristics b owner seller_type model_name (Some km) True)) ''km_multiplier''
     = Some (if km > 50000 then 0.88
             else if km > 30000 then 0.95
             else if km < 15000 then 1.03
             else 1.00)
   \<and> map_of (snd (apply_heuristics b owner seller_type model_name (Some 50001) True))
        ''km_multiplier'' = Some 0.88
   \<and> map_of (snd (apply_heuristics b owner seller_type model_name (Some 50000) True))
        ''km_multiplier'' = Some 0.95
   \<and> map_of (snd (apply_heuristics b owner seller_type model_name (Some 30001) True))
        ''km_multiplier'' = Some 0.95
   \<and> map_of (snd (apply_heuristics b owner seller_type model_name (Some 30000) True))
        ''km_multiplier'' = Some 1.00
   \<and> map_of (snd (apply_heuristics b owner seller_type model_name (Some 14999) True))
        ''km_multiplier'' = Some 1.03
   \<and> map_of (snd (apply_heuristics b owner seller_type model_name (Some 15000) True))
        ''km_multiplier'' = Some 1.00
   \<and> map_of (snd (apply_heuristics b owner seller_type model_name (Some 0) True))
        ''km_multiplier'' = Some 1.03"
  by (simp add: lookup_km km_factor_def)



text \<open>
  Claim C5. With adjustments on and a non-empty \<^verbatim>\<open>owner\<close>, the factor recorded under
  \<^verbatim>\<open>owner_multiplier\<close> is looked up in the table 1st owner 1.05, 2nd owner 0.98,
  3rd owner 0.94, 4th owner 0.90 at the lower-cased string, and is 1.0 for a string not
  in the table. Two owner strings with the same lower-casing give the same result, so
  \<^verbatim>\<open>"1ST OWNER"\<close> and \<^verbatim>\<open>"1st owner"\<close> do; \<^verbatim>\<open>"5th owner"\<close> records 1.0
  under the key; with \<^verbatim>\<open>owner\<close> absent or empty the key is not written.
\<close>

theorem owner_factor_case_insensitive:
  "(owner \<noteq> [] \<longrightarrow>
      map_of (snd (apply_heuristics b (Some owner) s m k True)) ''owner_multiplier'' =
        Some (case map_of [(''1st owner'', 1.05), (''2nd owner'', 0.98),
                           (''3rd owner'', 0.94), (''4th owner'', 0.90)] (lower owner) of
                Some v \<Rightarrow> v
              | None \<Rightarrow> 1.0))
   \<and> (lower o1 = lower o2 \<longrightarrow>
        apply_heuristics b (Some o1) s m k a = apply_heuristics b (Some o2) s m k a)
   \<and> apply_heuristics b (Some ''1ST OWNER'') s m k a
       = apply_heuristics b (Some ''1st owner'') s m k a
   \<and> map_of (snd (apply_heuristics b (Some ''5th owner'') s m k True)) ''owner_multiplier''
       = Some 1.0
   \<and> map_of (snd (apply_heuristics b None s m k a)) ''owner_multiplier'' = None
   \<and> map_of (snd (apply_heuristics b (Some []) s m k a)) ''owner_multiplier'' = None"
proof (intro conjI impI)
  assume "owner \<noteq> []"
  then show "map_of (snd (apply_heuristics b (Some owner) s m k True)) ''owner_multiplier'' =
        Some (case map_of [(''1st owner'', 1.05), (''2nd owner'', 0.98),
                           (''3rd owner'', 0.94), (''4th owner'', 0.90)] (lower owner) of
                Some v \<Rightarrow> v
              | None \<Rightarrow> 1.0)"
    by (simp add: lookup_owner owner_factor_def text_factor_def dict_get_def owner_map_def)
next
  assume "lower o1 = lower o2"
  then have "owner_factor (Some o1) = owner_factor (Some o2)"
    unfolding owner_factor_def by (rule text_factor_lower_cong)
  then show "apply_heuristics b (Some o1) s m k a = apply_heuristics b (Some o2) s m k a"
    by (rule apply_heuristics_owner_cong)
next
  have "lower ''1ST OWNER'' = lower ''1st owner''"
    by (simp add: lower_def lower_char_def)
  then have "owner_factor (Some ''1ST OWNER'') = owner_factor (Some ''1st owner'')"
    unfolding owner_factor_def by (rule text_factor_lower_cong)
  then show "apply_heuristics b (Some ''1ST OWNER'') s m k a
             = apply_heuristics b (Some ''1st owner'') s m k a"
    by (rule apply_heuristics_owner_cong)
next
  show "map_of (snd (apply_heuristics b (Some ''5th owner'') s m k True)) ''owner_multiplier''
        = Some 1.0"
    by (simp add: lookup_owner owner_factor_def text_factor_def dict_get_def owner_map_def
        lower_def lower_char_def)
next
  show "map_of (snd (apply_heuristics b None s m k a)) ''owner_multiplier'' = None"
    by (simp add: lookup_owner_absent owner_factor_absent)
next
  show "map_of (snd (apply_heuristics b (Some []) s m k a)) ''owner_multiplier'' = None"
    by (simp add: lookup_owner_absent owner_factor_absent)
qed

theorem owner_factor_case_insensitive_witness:
  "''2nd Owner'' \<noteq> []
   \<and> map_of (snd (apply_heuristics 50000 (Some ''2nd Owner'') None None None True))
       ''owner_multiplier'' = Some 0.98
   \<and> lower ''3RD owner'' = lower ''3rd OWNER''
   \<and> apply_heuristics 50000 (Some ''3RD owner'') None None None True
      = apply_heuristics 50000 (Some ''3rd OWNER'') None None None True"
  using owner_factor_case_insensitive
          [of "''2nd Owner''" 50000 None None None "''3RD owner''" "''3rd OWNER''" True]
  by (simp add: lower_def lower_char_def)

text \<open>
  Claim C6. For a base prediction of 50000 with owner \<^verbatim>\<open>"1st owner"\<close>, 15000 km, no
  seller type and no model name, and adjustments on, the total multiplier is 1.05 (owner
  1.05, distance 1.00) and the adjusted prediction is 52500.
\<close>

theorem end_to_end_scenario:
  "apply_heuristics 50000 (Some ''1st owner'') None None (Some 15000) True
   = (52500,
      [(''base'', 50000), (''owner_multiplier'', 1.05), (''km_multiplier'', 1.00),
       (''adjusted'', 52500), (''total_multiplier'', 1.05)])"
  by (simp add: apply_heuristics_def lower_def lower_char_def dict_get_def owner_map_def Let_def)

text \<open>
  Claim C8. With adjustments on, the value recorded under \<^verbatim>\<open>total_multiplier\<close> is the
  product of the values recorded under \<^verbatim>\<open>owner_multiplier\<close>,
  \<^verbatim>\<open>seller_multiplier\<close>, \<^verbatim>\<open>km_multiplier\<close> and \<^verbatim>\<open>model_multiplier\<close>, an
  absent key counting as 1.0; the value recorded under \<^verbatim>\<open>adjusted\<close>, which is also
  the returned prediction, is the base prediction times the total multiplier.
\<close>

theorem total_multiplier_is_product:
  "case apply_heuristics b owner seller_type model_name km True of
     (adjusted, bd) \<Rightarrow>
        map_of bd ''total_multiplier'' =
          Some (dict_get bd ''owner_multiplier'' 1.0 * dict_get bd ''seller_multiplier'' 1.0
                * dict_get bd ''km_multiplier'' 1.0 * dict_get bd ''model_multiplier'' 1.0)
      \<and> map_of bd ''adjusted'' = Some (b * dict_get bd ''total_multiplier'' 1.0)
      \<and> map_of bd ''base'' = Some b
      \<and> adjusted = b * dict_get bd ''total_multiplier'' 1.0"
proof -
  obtain adjusted bd where r: "apply_heuristics b owner seller_type model_name km True = (adjusted, bd)"
    by (cases "apply_heuristics b owner seller_type model_name km True")
  have bd: "bd = snd (apply_heuristics b owner seller_type model_name km True)"
    and adj: "adjusted = fst (apply_heuristics b owner seller_type model_name km True)"
    by (simp_all add: r)
  have t: "map_of bd ''total_multiplier'' = Some (total_factor owner seller_type model_name km)"
    unfolding bd by (rule lookup_total)
  have prod: "dict_get bd ''owner_multiplier'' 1 * dict_get bd ''seller_multiplier'' 1
                * dict_get bd ''km_multiplier'' 1 * dict_get bd ''model_multiplier'' 1
              = total_factor owner seller_type model_name km"
    unfolding dict_get_mult_of bd lookup_owner lookup_seller lookup_km lookup_model
    by (simp add: total_factor_def)
  have a: "map_of bd ''adjusted'' = Some (b * total_factor owner seller_type model_name km)"
    unfolding bd by (rule lookup_adjusted)
  have base: "map_of bd ''base'' = Some b"
    unfolding bd by (simp add: apply_heuristics_on update_conv' map_of_record_factor)
  have f: "adjusted = b * total_factor owner seller_type model_name km"
    unfolding adj by (rule apply_heuristics_fst)
  have tt: "dict_get bd ''total_multiplier'' 1 = total_factor owner seller_type model_name km"
    by (simp add: dict_get_def t)
  show ?thesis
    unfolding r by (simp add: t prod a f tt base)
qed

text \<open>
  Claim C9. With adjustments on and the optional arguments fixed, scaling the base
  prediction by \<open>k\<close> scales the adjusted prediction by \<open>k\<close> and leaves the recorded
  total multiplier as it was (in exact arithmetic).
\<close>

theorem multiplier_independent_of_base:
  "fst (apply_heuristics (k * b) owner seller_type model_name km True)
     = k * fst (apply_heuristics b owner seller_type model_name km True)
   \<and> map_of (snd (apply_heuristics (k * b) owner seller_type model_name km True))
       ''total_multiplier''
     = map_of (snd (apply_heuristics b owner seller_type model_name km True))
         ''total_multiplier''"
  by (simp add: lookup_total apply_heuristics_fst)

text \<open>
  Claim C10. With adjustments on, \<^verbatim>\<open>owner\<close>, \<^verbatim>\<open>seller_type\<close> and
  \<^verbatim>\<open>model_name\<close> each absent or empty and \<^verbatim>\<open>km_driven\<close> absent, the adjuster
  returns the base prediction, and the breakdown has exactly the keys \<^verbatim>\<open>base\<close>,
  \<^verbatim>\<open>adjusted\<close> and \<^verbatim>\<open>total_multiplier\<close>, the last with value 1.0.
\<close>

theorem no_factors_identity:
  assumes "owner = None \<or> owner = Some []"
    and "seller_type = None \<or> seller_type = Some []"
    and "model_name = None \<or> model_name = Some []"
  shows "apply_heuristics b owner seller_type model_name None True
         = (b, [(''base'', b), (''adjusted'', b), (''total_multiplier'', 1.0)])"
  using assms by (auto simp: apply_heuristics_def)

theorem no_factors_identity_witness:
  "apply_heuristics 50000 None (Some []) None None True
     = (50000, [(''base'', 50000), (''adjusted'', 50000), (''total_multiplier'', 1.0)])"
  using no_factors_identity [of None "Some []" None 50000] by simp

section \<open>Properties of the request handlers\<close>

subsection \<open>Supporting facts\<close>


lemma and_then_Inl:
  "and_then x f = Inl e \<longleftrightarrow> x = Inl e \<or> (\<exists>a. x = Inr a \<and> f a = Inl e)"
  by (cases x) simp_all


lemma missing_of_number:
  "is_number data \<Longrightarrow> missing_of data required = Inl TypeError"
  by (cases data) (simp_all add: required_def)

lemma missing_of_container:
  "\<not> is_number data \<Longrightarrow> truthy data \<Longrightarrow> \<exists>ms. missing_of data ks = Inr ms"
proof (induction ks)
  case Nil
  then show ?case by simp
next
  case (Cons k ks)
  then obtain ms where ms: "missing_of data ks = Inr ms" by auto
  from Cons.prems obtain p where "py_in k data = Inr p"
    by (cases data) simp_all
  with ms show ?case by simp
qed






text \<open>A truthy number or boolean makes the membership test raise, outside the
  \<^verbatim>\<open>try\<close> block; no other body makes an exception leave the handler.\<close>

lemma predict_api_number:
  "truthy data \<Longrightarrow> is_number data \<Longrightarrow> predict_api rt g data = Inl TypeError"
  by (simp add: predict_api_def missing_of_number)

lemma predict_api_raises:
  assumes "predict_api rt g data = Inl e"
  shows "truthy data \<and> is_number data \<and> e = TypeError"
proof -
  have t: "truthy data" using assms by (auto simp: predict_api_def split: if_splits)
  have n: "is_number data"
  proof (rule ccontr)
    assume "\<not> is_number data"
    from missing_of_container [OF this t] obtain ms where "missing_of data required = Inr ms"
      by blast
    with assms t show False
      by (auto simp: predict_api_def split: if_splits sum.splits)
  qed
  from predict_api_number [OF t n] assms show ?thesis using t n by simp
qed


text \<open>When the model is not loaded, a form POST is answered before any field is read.\<close>

lemma index_not_loaded:
  "\<not> model_loaded g \<Longrightarrow> index rt g POST form =
     \<lparr>page_prediction = None, page_adjusted_prediction = None, page_breakdown = None,
      page_error = Some (Text (''Model not loaded: '' @ str_opt (load_error g)))\<rparr>"
  by (simp add: index_def)

text \<open>A state set up at load time without a model carries the reason, and the health
  endpoint reports both.\<close>

lemma load_model_not_loaded:
  "\<not> model_loaded (load_model found y c) \<Longrightarrow>
     model (load_model found y c) = None \<and> load_error (load_model found y c) \<noteq> None"
  by (cases found) (simp_all add: load_model_def)

lemma health_not_loaded:
  "\<not> model_loaded (load_model found y c) \<Longrightarrow>
     health_model_loaded (health (load_model found y c)) = False
     \<and> health_load_error (health (load_model found y c)) \<noteq> None"
  using load_model_not_loaded [of found y c] by (simp add: health_def)


subsection \<open>The claims about the handlers\<close>




text \<open>
  Claim C7, evaluated with no model file present. The form POST is answered with the
  error \<^verbatim>\<open>Model not loaded:\<close> and the reason, whatever the form holds, and the health
  endpoint reports \<^verbatim>\<open>model_loaded\<close> false with the reason. The JSON handler has no
  such check: for a valid body it goes on to call \<^verbatim>\<open>predict\<close> on the absent model
  and answers with status 500 and the text of the resulting \<^verbatim>\<open>AttributeError\<close>; for
  a body with the year 1800 it answers with status 400 and \<^verbatim>\<open>Invalid year\<close>.
\<close>

theorem model_not_loaded_paths:
  "index rt (load_model NoFile y c) POST form =
     \<lparr>page_prediction = None, page_adjusted_prediction = None, page_breakdown = None,
      page_error = Some (Text (''Model not loaded: Model file not found at best_bike_price_model.pkl. Run the training notebook to create it.''))\<rparr>
   \<and> health_model_loaded (health (load_model NoFile y c)) = False
   \<and> health_load_error (health (load_model NoFile y c))
       = Some ''Model file not found at best_bike_price_model.pkl. Run the training notebook to create it.''
   \<and> predict_api rt (load_model NoFile 2025 c)
        (PDict [(''year'', PInt 2018), (''km_driven'', PInt 15000),
                (''ex_showroom_price'', PInt 85000)])
       = Inr (500, ErrorBody (StrOf (AttributeError ''predict'')))
   \<and> predict_api rt (load_model NoFile 2025 c)
        (PDict [(''year'', PInt 1800), (''km_driven'', PInt 15000),
                (''ex_showroom_price'', PInt 85000)])
       = Inr (400, ErrorBody (Text ''Invalid year''))"
  by (simp add: predict_api_def predict_api_try_def required_def load_model_def
      model_predict_def index_def health_def MODEL_PATH_def)

end
